theory Spec2Isabelle
  imports
    Complex_Main
    "HOL-Library.AList"
    "HOL-Library.Char_ord"
    "HOL-Library.List_Lexorder"
    "HOL-Library.Product_Lexorder"
begin

section \<open>Tray hold-time aggregation of \<^verbatim>\<open>sbarro_report.py\<close>\<close>

text \<open>
  The development embeds \<^verbatim>\<open>fetch_sensor_readings\<close> (the value it returns for each outcome
  of the remote query), \<^verbatim>\<open>aggregate_metrics\<close> and the loop of \<^verbatim>\<open>main\<close> that threads one
  dictionary through one call of \<^verbatim>\<open>aggregate_metrics\<close> per location.

  Conventions of the embedding.
  \<^item> A Python dictionary is an association list in insertion order with distinct keys:
    \<open>map_of\<close> reads a key, \<open>AList.update\<close> stores one (in place when the key is there,
    at the end otherwise), which is what \<^verbatim>\<open>d[k] = v\<close> does.
  \<^item> An exception is a value \<open>Inl e\<close> of the result type; \<open>Inr\<close> carries the state.
  \<^item> A \<^verbatim>\<open>timedelta\<close> is its total number of microseconds, an \<open>int\<close>. The range limit of
    \<^verbatim>\<open>timedelta\<close> (999999999 days) is not modelled.
  \<^item> \<^verbatim>\<open>percentage_trays_over_hold\<close> is a Python float; the model keeps the exact rational
    value of the expression and does not model the rounding of binary floating point.
  \<^item> \<^verbatim>\<open>print\<close> has no effect on the dictionary and is not modelled.
\<close>

subsection \<open>Exceptions\<close>

datatype py_error = KeyError | ValueError | TypeError | ZeroDivisionError

subsection \<open>Naive datetimes and timedeltas of the standard library\<close>

record datetime =
  dt_year :: nat
  dt_month :: nat
  dt_day :: nat
  dt_hour :: nat
  dt_minute :: nat
  dt_second :: nat

type_synonym timedelta = int

definition timedelta_hours :: "int \<Rightarrow> timedelta" where
  "timedelta_hours h = h * 3600 * 1000000"

definition is_leap :: "nat \<Rightarrow> bool" where
  "is_leap y = (y mod 4 = 0 \<and> (y mod 100 \<noteq> 0 \<or> y mod 400 = 0))"

definition days_in_month :: "nat \<Rightarrow> nat \<Rightarrow> nat" where
  "days_in_month y m =
     (if m = 2 \<and> is_leap y then 29
      else [0, 31, 28, 31, 30, 31, 30, 31, 31, 30, 31, 30, 31] ! m)"

definition days_before_year :: "nat \<Rightarrow> nat" where
  "days_before_year y =
     (let p = y - 1 in p * 365 + p div 4 - p div 100 + p div 400)"

definition days_before_month :: "nat \<Rightarrow> nat \<Rightarrow> nat" where
  "days_before_month y m =
     [0, 0, 31, 59, 90, 120, 151, 181, 212, 243, 273, 304, 334] ! m
       + (if 2 < m \<and> is_leap y then 1 else 0)"

definition toordinal :: "datetime \<Rightarrow> nat" where
  "toordinal d =
     days_before_year (dt_year d) + days_before_month (dt_year d) (dt_month d) + dt_day d"

definition seconds_of_day :: "datetime \<Rightarrow> nat" where
  "seconds_of_day d = dt_second d + dt_minute d * 60 + dt_hour d * 3600"

text \<open>\<^verbatim>\<open>a - b\<close> on two naive datetimes: the difference of the ordinals in days plus the
  difference of the seconds of the day.\<close>

definition datetime_sub :: "datetime \<Rightarrow> datetime \<Rightarrow> timedelta" where
  "datetime_sub a b =
     ((int (toordinal a) - int (toordinal b)) * 86400
        + (int (seconds_of_day a) - int (seconds_of_day b))) * 1000000"

text \<open>Datetimes compare as the tuples of their fields.\<close>

definition datetime_key :: "datetime \<Rightarrow> nat \<times> nat \<times> nat \<times> nat \<times> nat \<times> nat" where
  "datetime_key d =
     (dt_year d, dt_month d, dt_day d, dt_hour d, dt_minute d, dt_second d)"

definition datetime_less :: "datetime \<Rightarrow> datetime \<Rightarrow> bool" where
  "datetime_less a b = (datetime_key a < datetime_key b)"

definition datetime_le :: "datetime \<Rightarrow> datetime \<Rightarrow> bool" where
  "datetime_le a b = (datetime_key a \<le> datetime_key b)"

text \<open>\<^verbatim>\<open>min(a, b)\<close> returns \<open>b\<close> only when \<open>b < a\<close>.\<close>

definition datetime_min :: "datetime \<Rightarrow> datetime \<Rightarrow> datetime" where
  "datetime_min a b = (if datetime_less b a then b else a)"

text \<open>\<^verbatim>\<open>timedelta / int\<close>: the quotient of the microseconds rounded to the nearest integer,
  ties to the even one (\<^verbatim>\<open>_divide_and_round\<close> of the standard library, for a positive
  divisor).\<close>

definition divide_and_round :: "int \<Rightarrow> int \<Rightarrow> int" where
  "divide_and_round a b =
     (let q = a div b; r = (a mod b) * 2
      in if r > b \<or> (r = b \<and> q mod 2 = 1) then q + 1 else q)"

definition timedelta_truediv :: "timedelta \<Rightarrow> nat \<Rightarrow> timedelta" where
  "timedelta_truediv t n = divide_and_round t (int n)"

subsection \<open>\<^verbatim>\<open>strptime\<close> and \<^verbatim>\<open>strftime\<close> for the three formats of the program\<close>

text \<open>
  The standard library's \<^verbatim>\<open>datetime.strptime\<close> is modelled on the zero-padded form of each
  format, which is what the sensor module writes: ASCII digits in fields of fixed width,
  the separators of the format, and field values that make a date and a time of day.
  Every other string is \<open>None\<close>, the \<^verbatim>\<open>ValueError\<close> of \<^verbatim>\<open>strptime\<close>.
\<close>

definition digit :: "char \<Rightarrow> nat option" where
  "digit c =
     (let n = (of_char c :: nat) in if 48 \<le> n \<and> n \<le> 57 then Some (n - 48) else None)"

fun number_from :: "nat \<Rightarrow> string \<Rightarrow> nat option" where
  "number_from acc [] = Some acc"
| "number_from acc (c # cs) =
     (case digit c of None \<Rightarrow> None | Some d \<Rightarrow> number_from (10 * acc + d) cs)"

definition field :: "nat \<Rightarrow> nat \<Rightarrow> string \<Rightarrow> nat option" where
  "field pos len s = number_from 0 (take len (drop pos s))"

text \<open>The constructor \<^verbatim>\<open>datetime(y, m, d, H, M, S)\<close>, which raises \<^verbatim>\<open>ValueError\<close> on a field
  out of range.\<close>

definition make_datetime ::
  "nat \<Rightarrow> nat \<Rightarrow> nat \<Rightarrow> nat \<Rightarrow> nat \<Rightarrow> nat \<Rightarrow> datetime option" where
  "make_datetime y m d H M S =
     (if 1 \<le> y \<and> y \<le> 9999 \<and> 1 \<le> m \<and> m \<le> 12
         \<and> 1 \<le> d \<and> d \<le> days_in_month y m \<and> H < 24 \<and> M < 60 \<and> S < 60
      then Some \<lparr>dt_year = y, dt_month = m, dt_day = d,
                 dt_hour = H, dt_minute = M, dt_second = S\<rparr>
      else None)"

text \<open>The six fields at the given positions, of widths 4, 2, 2, 2, 2, 2.\<close>

definition parse_fields ::
  "nat \<Rightarrow> nat \<Rightarrow> nat \<Rightarrow> nat \<Rightarrow> nat \<Rightarrow> nat \<Rightarrow> string \<Rightarrow> datetime option" where
  "parse_fields py pm pd pH pM pS s =
     (case field py 4 s of None \<Rightarrow> None | Some y \<Rightarrow>
     (case field pm 2 s of None \<Rightarrow> None | Some m \<Rightarrow>
     (case field pd 2 s of None \<Rightarrow> None | Some d \<Rightarrow>
     (case field pH 2 s of None \<Rightarrow> None | Some H \<Rightarrow>
     (case field pM 2 s of None \<Rightarrow> None | Some M \<Rightarrow>
     (case field pS 2 s of None \<Rightarrow> None | Some S \<Rightarrow>
        make_datetime y m d H M S))))))"

text \<open>\<^verbatim>\<open>datetime.strptime(s, "%Y%m%d_%H%M%S")\<close>\<close>

definition strptime_initial :: "string \<Rightarrow> datetime option" where
  "strptime_initial s =
     (if length s = 15 \<and> s ! 8 = CHR ''_''
      then parse_fields 0 4 6 9 11 13 s
      else None)"

text \<open>\<^verbatim>\<open>datetime.strptime(s, "%Y-%m-%d %H:%M:%S")\<close>\<close>

definition strptime_current :: "string \<Rightarrow> datetime option" where
  "strptime_current s =
     (if length s = 19 \<and> s ! 4 = CHR ''-'' \<and> s ! 7 = CHR ''-'' \<and> s ! 10 = CHR '' ''
         \<and> s ! 13 = CHR '':'' \<and> s ! 16 = CHR '':''
      then parse_fields 0 5 8 11 14 17 s
      else None)"

text \<open>Decimal digits in a field of width 2 or 4, padded with zeros.\<close>

definition digit_char :: "nat \<Rightarrow> char" where
  "digit_char d = ''0123456789'' ! d"

definition pad2 :: "nat \<Rightarrow> string" where
  "pad2 n = [digit_char (n div 10 mod 10), digit_char (n mod 10)]"

definition pad4 :: "nat \<Rightarrow> string" where
  "pad4 n = [digit_char (n div 1000 mod 10), digit_char (n div 100 mod 10),
             digit_char (n div 10 mod 10), digit_char (n mod 10)]"

text \<open>\<^verbatim>\<open>d.strftime("%Y-%m-%d")\<close>\<close>

definition strftime_day :: "datetime \<Rightarrow> string" where
  "strftime_day d = pad4 (dt_year d) @ ''-'' @ pad2 (dt_month d) @ ''-'' @ pad2 (dt_day d)"

subsection \<open>Readings, batches and the dictionary of metrics\<close>

text \<open>A reading is a dictionary; a field is \<open>None\<close> when its key is absent.\<close>

record reading =
  initial_timestamp :: "string option"
  current_timestamp :: "string option"

text \<open>A batch is one element \<^verbatim>\<open>records\<close> of \<^verbatim>\<open>data\<close>: the list at
  \<^verbatim>\<open>records["data"]["readings"]["readings"]\<close>, or \<open>None\<close> when that path is absent.\<close>

type_synonym batch = "reading list option"

text \<open>\<^verbatim>\<open>average_hold_time\<close> is a \<^verbatim>\<open>timedelta\<close> or the integer \<^verbatim>\<open>0\<close>.\<close>

datatype py_average = Avg_timedelta timedelta | Avg_int int

text \<open>The dictionary of one (day, location) group; \<^verbatim>\<open>average_hold_time\<close> is \<open>None\<close> until
  the key is set.\<close>

record metrics =
  first_tray_time :: datetime
  last_tray_count :: nat
  last_tray_time :: datetime
  percentage_trays_over_hold :: rat
  total_trays :: nat
  trays_exceeding_hold_time :: nat
  total_hold_time :: timedelta
  average_hold_time :: "py_average option"

type_synonym stores = "(string \<times> metrics) list"

type_synonym daily_metrics = "(string \<times> stores) list"

definition group_of :: "daily_metrics \<Rightarrow> string \<Rightarrow> string \<Rightarrow> metrics option" where
  "group_of dm day location_name =
     (case map_of dm day of None \<Rightarrow> None | Some st \<Rightarrow> map_of st location_name)"

subsection \<open>\<^verbatim>\<open>aggregate_metrics\<close>: the body of the inner loop\<close>

text \<open>The dictionary literal stored when the group is new (lines 83 to 91).\<close>

definition seed_metrics :: "nat \<Rightarrow> datetime \<Rightarrow> timedelta \<Rightarrow> metrics" where
  "seed_metrics batch_trays initial hold_time =
     \<lparr>first_tray_time = initial,
      last_tray_count = batch_trays,
      last_tray_time = initial,
      percentage_trays_over_hold = 0,
      total_trays = batch_trays,
      trays_exceeding_hold_time = (if hold_time > timedelta_hours 4 then 1 else 0),
      total_hold_time = hold_time,
      average_hold_time = None\<rparr>"

text \<open>The update of an existing group (lines 93 to 111). The division of line 111 is a
  division of two Python integers and raises \<^verbatim>\<open>ZeroDivisionError\<close> on a zero divisor.\<close>

definition update_metrics ::
  "nat \<Rightarrow> datetime \<Rightarrow> timedelta \<Rightarrow> metrics \<Rightarrow> py_error + metrics" where
  "update_metrics batch_trays initial hold_time store_metrics =
     (let m1 = store_metrics
            \<lparr>first_tray_time := datetime_min (first_tray_time store_metrics) initial\<rparr>;
          m2 = (if batch_trays > last_tray_count m1
                   \<or> (batch_trays = last_tray_count m1 \<and> datetime_less (last_tray_time m1) initial)
                then m1\<lparr>last_tray_time := initial, last_tray_count := batch_trays\<rparr>
                else m1);
          m3 = m2\<lparr>total_trays := max batch_trays (total_trays m2)\<rparr>;
          m4 = m3\<lparr>total_hold_time := total_hold_time m3 + hold_time\<rparr>
      in if hold_time > timedelta_hours 4
         then (let m5 = m4\<lparr>trays_exceeding_hold_time := trays_exceeding_hold_time m4 + 1\<rparr>
               in if total_trays m5 = 0 then Inl ZeroDivisionError
                  else Inr (m5\<lparr>percentage_trays_over_hold :=
                         (of_nat (trays_exceeding_hold_time m5) / of_nat (total_trays m5)) * 100\<rparr>))
         else Inr m4)"

text \<open>The body of the \<^verbatim>\<open>try\<close> block for one reading (lines 75 to 111). Both key lookups and
  both calls of \<^verbatim>\<open>strptime\<close> come before the first write to the dictionary, in this order.\<close>

definition process_reading ::
  "nat \<Rightarrow> string \<Rightarrow> daily_metrics \<Rightarrow> reading \<Rightarrow> py_error + daily_metrics" where
  "process_reading batch_trays location_name dm r =
     (case initial_timestamp r of
        None \<Rightarrow> Inl KeyError
      | Some s \<Rightarrow>
     (case strptime_initial s of
        None \<Rightarrow> Inl ValueError
      | Some initial \<Rightarrow>
     (case current_timestamp r of
        None \<Rightarrow> Inl KeyError
      | Some c \<Rightarrow>
     (case strptime_current c of
        None \<Rightarrow> Inl ValueError
      | Some current \<Rightarrow>
          (let hold_time = datetime_sub current initial;
               day = strftime_day initial;
               st = (case map_of dm day of None \<Rightarrow> [] | Some st' \<Rightarrow> st')
           in case map_of st location_name of
                None \<Rightarrow>
                  Inr (AList.update day
                        (AList.update location_name (seed_metrics batch_trays initial hold_time) st) dm)
              | Some store_metrics \<Rightarrow>
                  (case update_metrics batch_trays initial hold_time store_metrics of
                     Inl e \<Rightarrow> Inl e
                   | Inr m \<Rightarrow>
                       Inr (AList.update day (AList.update location_name m st) dm)))))))"

subsection \<open>The loops of \<^verbatim>\<open>aggregate_metrics\<close>\<close>

text \<open>The inner loop (lines 73 to 114): \<^verbatim>\<open>except KeyError\<close> goes on with the next reading
  and the dictionary as it was; every other exception leaves the function.\<close>

fun process_readings ::
  "nat \<Rightarrow> string \<Rightarrow> daily_metrics \<Rightarrow> reading list \<Rightarrow> py_error + daily_metrics" where
  "process_readings batch_trays location_name dm [] = Inr dm"
| "process_readings batch_trays location_name dm (r # rs) =
     (case process_reading batch_trays location_name dm r of
        Inl e \<Rightarrow>
          (if e = KeyError then process_readings batch_trays location_name dm rs else Inl e)
      | Inr dm' \<Rightarrow> process_readings batch_trays location_name dm' rs)"

text \<open>The outer loop (lines 70 to 72); line 71 is outside the \<^verbatim>\<open>try\<close> block.\<close>

fun process_batches ::
  "string \<Rightarrow> daily_metrics \<Rightarrow> batch list \<Rightarrow> py_error + daily_metrics" where
  "process_batches location_name dm [] = Inr dm"
| "process_batches location_name dm (records # data) =
     (case records of
        None \<Rightarrow> Inl KeyError
      | Some readings \<Rightarrow>
          (case process_readings (length readings) location_name dm readings of
             Inl e \<Rightarrow> Inl e
           | Inr dm' \<Rightarrow> process_batches location_name dm' data))"

text \<open>The second loop (lines 117 to 121).\<close>

definition finalize_metrics :: "metrics \<Rightarrow> metrics" where
  "finalize_metrics m =
     m\<lparr>average_hold_time :=
         Some (if total_trays m > 0
               then Avg_timedelta (timedelta_truediv (total_hold_time m) (total_trays m))
               else Avg_int 0)\<rparr>"

definition finalize :: "daily_metrics \<Rightarrow> daily_metrics" where
  "finalize dm =
     map (\<lambda>(day, locations).
            (day, map (\<lambda>(location_name, m). (location_name, finalize_metrics m)) locations))
       dm"

text \<open>Line 123. The keys of a dictionary are distinct, so sorting its items sorts by key.\<close>

definition sort_metrics :: "daily_metrics \<Rightarrow> daily_metrics" where
  "sort_metrics dm = map (\<lambda>(day, st). (day, sort_key fst st)) (sort_key fst dm)"

text \<open>\<^verbatim>\<open>data\<close> is \<open>None\<close> when the caller passes Python's \<^verbatim>\<open>None\<close>, which \<^verbatim>\<open>for\<close> cannot
  iterate.\<close>

definition aggregate_metrics ::
  "batch list option \<Rightarrow> daily_metrics \<Rightarrow> string \<Rightarrow> py_error + daily_metrics" where
  "aggregate_metrics data dm location_name =
     (case data of
        None \<Rightarrow> Inl TypeError
      | Some batches \<Rightarrow>
          (case process_batches location_name dm batches of
             Inl e \<Rightarrow> Inl e
           | Inr dm' \<Rightarrow> Inr (sort_metrics (finalize dm'))))"

subsection \<open>\<^verbatim>\<open>fetch_sensor_readings\<close> and the loop of \<^verbatim>\<open>main\<close>\<close>

text \<open>The remote query either raises or returns a list of batches. Lines 58 to 61: a
  non-empty response is returned, an empty one gives the value of \<^verbatim>\<open>print\<close>, which is
  \<^verbatim>\<open>None\<close>, and an exception gives the empty list.\<close>

datatype query_outcome = Query_raised | Query_response "batch list"

definition fetch_sensor_readings :: "query_outcome \<Rightarrow> batch list option" where
  "fetch_sensor_readings q =
     (case q of
        Query_raised \<Rightarrow> Some []
      | Query_response response \<Rightarrow> (if response \<noteq> [] then Some response else None))"

text \<open>Lines 245 to 249, one pair of query outcome and resolved location name per
  location identifier.\<close>

fun main_loop ::
  "(query_outcome \<times> string) list \<Rightarrow> daily_metrics \<Rightarrow> py_error + daily_metrics" where
  "main_loop [] dm = Inr dm"
| "main_loop ((q, location_name) # rest) dm =
     (case aggregate_metrics (fetch_sensor_readings q) dm location_name of
        Inl e \<Rightarrow> Inl e
      | Inr dm' \<Rightarrow> main_loop rest dm')"

subsection \<open>Kinds of readings\<close>

text \<open>A reading is well formed when both keys are present and both strings parse; it
  misses a field when a key is absent; it is unparseable when a string that is present
  does not parse.\<close>

definition well_formed :: "reading \<Rightarrow> bool" where
  "well_formed r =
     ((case initial_timestamp r of None \<Rightarrow> False | Some s \<Rightarrow> strptime_initial s \<noteq> None)
      \<and> (case current_timestamp r of None \<Rightarrow> False | Some c \<Rightarrow> strptime_current c \<noteq> None))"

definition missing_field :: "reading \<Rightarrow> bool" where
  "missing_field r = (initial_timestamp r = None \<or> current_timestamp r = None)"

definition unparseable :: "reading \<Rightarrow> bool" where
  "unparseable r =
     ((case initial_timestamp r of None \<Rightarrow> False | Some s \<Rightarrow> strptime_initial s = None)
      \<or> (case current_timestamp r of None \<Rightarrow> False | Some c \<Rightarrow> strptime_current c = None))"

subsection \<open>The invariant of the dictionary\<close>

text \<open>Every group of the dictionary has at least one tray.\<close>

definition trays_positive :: "daily_metrics \<Rightarrow> bool" where
  "trays_positive dm = (\<forall>d l g. group_of dm d l = Some g \<longrightarrow> 1 \<le> total_trays g)"

subsection \<open>Inputs of the examples\<close>

text \<open>A time of day in January 2024, and a reading with both keys.\<close>

definition january :: "nat \<Rightarrow> nat \<Rightarrow> nat \<Rightarrow> datetime" where
  "january D H M =
     \<lparr>dt_year = 2024, dt_month = 1, dt_day = D, dt_hour = H, dt_minute = M, dt_second = 0\<rparr>"

definition reading_of :: "string \<Rightarrow> string \<Rightarrow> reading" where
  "reading_of a b = \<lparr>initial_timestamp = Some a, current_timestamp = Some b\<rparr>"

section \<open>Facts about the dictionary and the loop body\<close>

lemma group_of_update:
  "group_of (AList.update day (AList.update loc m (case map_of dm day of None \<Rightarrow> [] | Some st \<Rightarrow> st)) dm) d l
     = (if d = day \<and> l = loc then Some m else group_of dm d l)"
  by (simp add: group_of_def update_conv' split: option.splits)

lemma process_reading_parsed:
  assumes "initial_timestamp r = Some s" "strptime_initial s = Some i"
    "current_timestamp r = Some c" "strptime_current c = Some cu"
  shows "process_reading n loc dm r =
    (case group_of dm (strftime_day i) loc of
       None \<Rightarrow> Inr (AList.update (strftime_day i) (AList.update loc (seed_metrics n i (datetime_sub cu i))
                 (case map_of dm (strftime_day i) of None \<Rightarrow> [] | Some st \<Rightarrow> st)) dm)
     | Some g \<Rightarrow> (case update_metrics n i (datetime_sub cu i) g of Inl e \<Rightarrow> Inl e
          | Inr m \<Rightarrow> Inr (AList.update (strftime_day i) (AList.update loc m
                 (case map_of dm (strftime_day i) of None \<Rightarrow> [] | Some st \<Rightarrow> st)) dm)))"
  using assms by (simp add: process_reading_def group_of_def Let_def split: option.splits)

text \<open>What a reading that is processed does to the groups.\<close>

lemma process_reading_Inr:
  assumes "process_reading n loc dm r = Inr dm'"
  shows "\<exists>s i c cu m. initial_timestamp r = Some s \<and> strptime_initial s = Some i \<and>
    current_timestamp r = Some c \<and> strptime_current c = Some cu \<and>
    (case group_of dm (strftime_day i) loc of None \<Rightarrow> m = seed_metrics n i (datetime_sub cu i)
       | Some g \<Rightarrow> update_metrics n i (datetime_sub cu i) g = Inr m) \<and>
    (\<forall>d l. group_of dm' d l = (if d = strftime_day i \<and> l = loc then Some m else group_of dm d l))"
proof -
  from assms obtain s where s: "initial_timestamp r = Some s"
    by (auto simp: process_reading_def split: option.splits)
  from assms s obtain i where i: "strptime_initial s = Some i"
    by (auto simp: process_reading_def split: option.splits)
  from assms s i obtain c where c: "current_timestamp r = Some c"
    by (auto simp: process_reading_def split: option.splits)
  from assms s i c obtain cu where cu: "strptime_current c = Some cu"
    by (auto simp: process_reading_def split: option.splits)
  note eq = process_reading_parsed [OF s i c cu, of n loc dm]
  show ?thesis
  proof (cases "group_of dm (strftime_day i) loc")
    case None
    with eq assms have "dm' = AList.update (strftime_day i) (AList.update loc (seed_metrics n i (datetime_sub cu i))
                 (case map_of dm (strftime_day i) of None \<Rightarrow> [] | Some st \<Rightarrow> st)) dm" by simp
    with s i c cu None show ?thesis by (auto simp: group_of_update)
  next
    case (Some g)
    with eq assms obtain m where m: "update_metrics n i (datetime_sub cu i) g = Inr m"
      and "dm' = AList.update (strftime_day i) (AList.update loc m
                 (case map_of dm (strftime_day i) of None \<Rightarrow> [] | Some st \<Rightarrow> st)) dm"
      by (auto split: sum.splits)
    with s i c cu Some show ?thesis by (auto simp: group_of_update)
  qed
qed

lemma datetime_le_refl: "datetime_le a a"
  by (simp add: datetime_le_def)

lemma datetime_le_trans: "datetime_le a b \<Longrightarrow> datetime_le b c \<Longrightarrow> datetime_le a c"
  unfolding datetime_le_def by (rule order_trans)

lemma datetime_min_le: "datetime_le (datetime_min a b) a"
  unfolding datetime_min_def datetime_le_def datetime_less_def by (simp add: less_imp_le)

lemma update_metrics_fields:
  assumes "update_metrics n i h g = Inr m"
  shows "first_tray_time m = datetime_min (first_tray_time g) i"
    and "total_trays m = max n (total_trays g)"
    and "total_hold_time m = total_hold_time g + h"
    and "trays_exceeding_hold_time m =
           (if h > timedelta_hours 4 then trays_exceeding_hold_time g + 1
            else trays_exceeding_hold_time g)"
    and "percentage_trays_over_hold m =
           (if h > timedelta_hours 4
            then (of_nat (trays_exceeding_hold_time g + 1) / of_nat (max n (total_trays g))) * 100
            else percentage_trays_over_hold g)"
    and "last_tray_time m =
           (if n > last_tray_count g \<or> (n = last_tray_count g \<and> datetime_less (last_tray_time g) i)
            then i else last_tray_time g)"
    and "last_tray_count m =
           (if n > last_tray_count g \<or> (n = last_tray_count g \<and> datetime_less (last_tray_time g) i)
            then n else last_tray_count g)"
    and "average_hold_time m = average_hold_time g"
  using assms unfolding update_metrics_def Let_def
  by (simp_all split: if_splits) fastforce+

lemma update_metrics_returns:
  "(h > timedelta_hours 4 \<longrightarrow> 0 < max n (total_trays g)) \<Longrightarrow> \<exists>m. update_metrics n i h g = Inr m"
  by (auto simp: update_metrics_def Let_def)

lemma update_metrics_raises:
  "update_metrics n i h g = Inl e \<Longrightarrow> e = ZeroDivisionError \<and> n = 0"
  by (simp add: update_metrics_def Let_def split: if_splits)

lemma update_metrics_mono:
  assumes "update_metrics n i h g = Inr m"
  shows "total_trays g \<le> total_trays m \<and> trays_exceeding_hold_time g \<le> trays_exceeding_hold_time m
     \<and> datetime_le (first_tray_time m) (first_tray_time g)"
  by (simp add: update_metrics_fields [OF assms] datetime_min_le)

lemma process_reading_mono:
  assumes "process_reading n loc dm r = Inr dm'" "group_of dm d l = Some g"
  shows "\<exists>g'. group_of dm' d l = Some g' \<and> total_trays g \<le> total_trays g'
     \<and> trays_exceeding_hold_time g \<le> trays_exceeding_hold_time g'
     \<and> datetime_le (first_tray_time g') (first_tray_time g)"
proof -
  from process_reading_Inr [OF assms(1)] obtain i cu m where
    m: "case group_of dm (strftime_day i) loc of None \<Rightarrow> m = seed_metrics n i (datetime_sub cu i)
       | Some g \<Rightarrow> update_metrics n i (datetime_sub cu i) g = Inr m"
    and g': "\<And>d l. group_of dm' d l = (if d = strftime_day i \<and> l = loc then Some m else group_of dm d l)"
    by blast
  show ?thesis
  proof (cases "d = strftime_day i \<and> l = loc")
    case True
    with m assms(2) have "update_metrics n i (datetime_sub cu i) g = Inr m" by simp
    from update_metrics_mono [OF this] g' True show ?thesis by simp
  next
    case False
    with g' assms(2) show ?thesis by (auto simp: datetime_le_refl)
  qed
qed

lemma process_readings_mono:
  assumes "process_readings n loc dm rs = Inr dm'" "group_of dm d l = Some g"
  shows "\<exists>g'. group_of dm' d l = Some g' \<and> total_trays g \<le> total_trays g'
     \<and> trays_exceeding_hold_time g \<le> trays_exceeding_hold_time g'
     \<and> datetime_le (first_tray_time g') (first_tray_time g)"
  using assms
proof (induction rs arbitrary: dm g)
  case Nil
  then show ?case by (simp add: datetime_le_refl)
next
  case (Cons r rs)
  show ?case
  proof (cases "process_reading n loc dm r")
    case (Inl e)
    with Cons.prems(1) have "process_readings n loc dm rs = Inr dm'"
      by (simp split: if_splits)
    from Cons.IH [OF this Cons.prems(2)] show ?thesis .
  next
    case (Inr dm1)
    with Cons.prems(1) have rest: "process_readings n loc dm1 rs = Inr dm'" by simp
    from process_reading_mono [OF Inr Cons.prems(2)] obtain g1 where
      g1: "group_of dm1 d l = Some g1" "total_trays g \<le> total_trays g1"
        "trays_exceeding_hold_time g \<le> trays_exceeding_hold_time g1"
        "datetime_le (first_tray_time g1) (first_tray_time g)" by blast
    from Cons.IH [OF rest g1(1)] obtain g' where
      "group_of dm' d l = Some g'" "total_trays g1 \<le> total_trays g'"
        "trays_exceeding_hold_time g1 \<le> trays_exceeding_hold_time g'"
        "datetime_le (first_tray_time g') (first_tray_time g1)" by blast
    with g1 show ?thesis by (auto intro: datetime_le_trans)
  qed
qed

lemma process_batches_mono:
  assumes "process_batches loc dm bs = Inr dm'" "group_of dm d l = Some g"
  shows "\<exists>g'. group_of dm' d l = Some g' \<and> total_trays g \<le> total_trays g'
     \<and> trays_exceeding_hold_time g \<le> trays_exceeding_hold_time g'
     \<and> datetime_le (first_tray_time g') (first_tray_time g)"
  using assms
proof (induction bs arbitrary: dm g)
  case Nil
  then show ?case by (simp add: datetime_le_refl)
next
  case (Cons b bs)
  from Cons.prems(1) obtain rs dm1 where b: "b = Some rs"
    and dm1: "process_readings (length rs) loc dm rs = Inr dm1"
    and rest: "process_batches loc dm1 bs = Inr dm'"
    by (auto split: option.splits sum.splits)
  from process_readings_mono [OF dm1 Cons.prems(2)] obtain g1 where
      g1: "group_of dm1 d l = Some g1" "total_trays g \<le> total_trays g1"
        "trays_exceeding_hold_time g \<le> trays_exceeding_hold_time g1"
        "datetime_le (first_tray_time g1) (first_tray_time g)" by blast
  from Cons.IH [OF rest g1(1)] obtain g' where
      "group_of dm' d l = Some g'" "total_trays g1 \<le> total_trays g'"
        "trays_exceeding_hold_time g1 \<le> trays_exceeding_hold_time g'"
        "datetime_le (first_tray_time g') (first_tray_time g1)" by blast
  with g1 show ?case by (auto intro: datetime_le_trans)
qed

lemma map_of_filter_key: "map_of xs k = map_of (filter (\<lambda>p. fst p = k) xs) k"
  by (induction xs) auto

lemma map_of_sort_key: "map_of (sort_key fst xs) k = map_of xs k"
proof -
  have "map_of (sort_key fst xs) k = map_of (filter (\<lambda>p. fst p = k) (sort_key fst xs)) k"
    by (rule map_of_filter_key)
  also have "\<dots> = map_of (filter (\<lambda>p. fst p = k) xs) k"
    by (simp only: sort_key_stable)
  also have "\<dots> = map_of xs k"
    by (rule map_of_filter_key [symmetric])
  finally show ?thesis .
qed

lemma map_of_map_snd: "map_of (map (\<lambda>(k, v). (k, f v)) xs) k = map_option f (map_of xs k)"
  by (induction xs) auto

lemma group_of_finalize: "group_of (finalize dm) d l = map_option finalize_metrics (group_of dm d l)"
  by (simp add: group_of_def finalize_def map_of_map_snd split: option.splits)

lemma group_of_sort_metrics: "group_of (sort_metrics dm) d l = group_of dm d l"
  by (simp add: group_of_def sort_metrics_def map_of_map_snd map_of_sort_key split: option.splits)

subsection \<open>Which exceptions the loops can raise\<close>

lemma process_reading_Inl:
  assumes "process_reading n loc dm r = Inl e"
  shows "(e = KeyError \<and> missing_field r) \<or> (e = ValueError \<and> unparseable r)
           \<or> (e = ZeroDivisionError \<and> n = 0)"
proof (cases "initial_timestamp r")
  case None
  with assms show ?thesis by (simp add: process_reading_def missing_field_def)
next
  case s: (Some s)
  show ?thesis
  proof (cases "strptime_initial s")
    case None
    with assms s show ?thesis by (simp add: process_reading_def unparseable_def)
  next
    case i: (Some i)
    show ?thesis
    proof (cases "current_timestamp r")
      case None
      with assms s i show ?thesis by (simp add: process_reading_def missing_field_def)
    next
      case c: (Some c)
      show ?thesis
      proof (cases "strptime_current c")
        case None
        with assms s i c show ?thesis by (simp add: process_reading_def unparseable_def)
      next
        case cu: (Some cu)
        from assms process_reading_parsed [OF s i c cu, of n loc dm]
        obtain g where "update_metrics n i (datetime_sub cu i) g = Inl e"
          by (auto split: option.splits sum.splits)
        from update_metrics_raises [OF this] show ?thesis by simp
      qed
    qed
  qed
qed

lemma process_readings_Inl:
  assumes "process_readings n loc dm rs = Inl e"
  shows "(e = ValueError \<and> (\<exists>r \<in> set rs. unparseable r)) \<or> (e = ZeroDivisionError \<and> n = 0 \<and> rs \<noteq> [])"
  using assms
proof (induction rs arbitrary: dm)
  case Nil
  then show ?case by simp
next
  case (Cons r rs)
  show ?case
  proof (cases "process_reading n loc dm r")
    case (Inl e')
    show ?thesis
    proof (cases "e' = KeyError")
      case True
      with Inl Cons.prems have "process_readings n loc dm rs = Inl e" by simp
      from Cons.IH [OF this] show ?thesis by auto
    next
      case False
      with Inl Cons.prems have "e' = e" by simp
      with process_reading_Inl [OF Inl] False show ?thesis by auto
    qed
  next
    case (Inr dm1)
    with Cons.prems have "process_readings n loc dm1 rs = Inl e" by simp
    from Cons.IH [OF this] show ?thesis by auto
  qed
qed

lemma process_batches_Inl:
  assumes "process_batches loc dm bs = Inl e"
  shows "(e = KeyError \<and> None \<in> set bs)
           \<or> (e = ValueError \<and> (\<exists>rs r. Some rs \<in> set bs \<and> r \<in> set rs \<and> unparseable r))"
  using assms
proof (induction bs arbitrary: dm)
  case Nil
  then show ?case by simp
next
  case (Cons b bs)
  show ?case
  proof (cases b)
    case None
    with Cons.prems show ?thesis by simp
  next
    case (Some rs)
    show ?thesis
    proof (cases "process_readings (length rs) loc dm rs")
      case (Inl e')
      with Some Cons.prems have "e' = e" by simp
      with process_readings_Inl [OF Inl] Some show ?thesis by auto
    next
      case (Inr dm1)
      with Some Cons.prems have "process_batches loc dm1 bs = Inl e" by simp
      from Cons.IH [OF this] show ?thesis by auto
    qed
  qed
qed

subsection \<open>Every group has at least one tray\<close>

lemma process_reading_positive:
  assumes "process_reading n loc dm r = Inr dm'" "1 \<le> n" "trays_positive dm"
  shows "trays_positive dm'"
proof -
  from process_reading_Inr [OF assms(1)] obtain i cu m where
    m: "case group_of dm (strftime_day i) loc of None \<Rightarrow> m = seed_metrics n i (datetime_sub cu i)
       | Some g \<Rightarrow> update_metrics n i (datetime_sub cu i) g = Inr m"
    and g': "\<And>d l. group_of dm' d l = (if d = strftime_day i \<and> l = loc then Some m else group_of dm d l)"
    by blast
  have "1 \<le> total_trays m"
  proof (cases "group_of dm (strftime_day i) loc")
    case None
    with m assms(2) show ?thesis by (simp add: seed_metrics_def)
  next
    case (Some g)
    with m have "update_metrics n i (datetime_sub cu i) g = Inr m" by simp
    from update_metrics_fields(2) [OF this] assms(2) show ?thesis by simp
  qed
  with g' assms(3) show ?thesis
    unfolding trays_positive_def by (auto split: if_splits)
qed

lemma process_readings_positive:
  assumes "process_readings n loc dm rs = Inr dm'" "rs \<noteq> [] \<longrightarrow> 1 \<le> n" "trays_positive dm"
  shows "trays_positive dm'"
  using assms
proof (induction rs arbitrary: dm)
  case Nil
  then show ?case by simp
next
  case (Cons r rs)
  from Cons.prems(2) have n: "1 \<le> n" by simp
  show ?case
  proof (cases "process_reading n loc dm r")
    case (Inl e)
    with Cons.prems(1) have "process_readings n loc dm rs = Inr dm'"
      by (simp split: if_splits)
    from Cons.IH [OF this _ Cons.prems(3)] n show ?thesis by simp
  next
    case (Inr dm1)
    with Cons.prems(1) have rest: "process_readings n loc dm1 rs = Inr dm'" by simp
    from process_reading_positive [OF Inr n Cons.prems(3)] have "trays_positive dm1" .
    from Cons.IH [OF rest _ this] n show ?thesis by simp
  qed
qed

lemma process_batches_positive:
  assumes "process_batches loc dm bs = Inr dm'" "trays_positive dm"
  shows "trays_positive dm'"
  using assms
proof (induction bs arbitrary: dm)
  case Nil
  then show ?case by simp
next
  case (Cons b bs)
  from Cons.prems(1) obtain rs dm1 where b: "b = Some rs"
    and dm1: "process_readings (length rs) loc dm rs = Inr dm1"
    and rest: "process_batches loc dm1 bs = Inr dm'"
    by (auto split: option.splits sum.splits)
  have "rs \<noteq> [] \<longrightarrow> 1 \<le> length rs" by (cases rs) simp_all
  from process_readings_positive [OF dm1 this Cons.prems(2)] have "trays_positive dm1" .
  from Cons.IH [OF rest this] show ?case .
qed

subsection \<open>The result of a call\<close>

lemma aggregate_metrics_Inr:
  assumes "aggregate_metrics data dm loc = Inr dm'"
  shows "\<exists>bs dm1. data = Some bs \<and> process_batches loc dm bs = Inr dm1
           \<and> dm' = sort_metrics (finalize dm1)
           \<and> (\<forall>d l. group_of dm' d l = map_option finalize_metrics (group_of dm1 d l))"
  using assms
  by (auto simp: aggregate_metrics_def group_of_sort_metrics group_of_finalize
           split: option.splits sum.splits)

lemma aggregate_metrics_mono:
  assumes "aggregate_metrics data dm loc = Inr dm'" "group_of dm d l = Some g"
  shows "\<exists>g'. group_of dm' d l = Some g' \<and> total_trays g \<le> total_trays g'
     \<and> trays_exceeding_hold_time g \<le> trays_exceeding_hold_time g'
     \<and> datetime_le (first_tray_time g') (first_tray_time g)"
proof -
  from aggregate_metrics_Inr [OF assms(1)] obtain bs dm1 where
    dm1: "process_batches loc dm bs = Inr dm1"
    and g': "\<And>d l. group_of dm' d l = map_option finalize_metrics (group_of dm1 d l)"
    by blast
  from process_batches_mono [OF dm1 assms(2)] obtain g1 where
    "group_of dm1 d l = Some g1" "total_trays g \<le> total_trays g1"
    "trays_exceeding_hold_time g \<le> trays_exceeding_hold_time g1"
    "datetime_le (first_tray_time g1) (first_tray_time g)" by blast
  then show ?thesis by (simp add: g' finalize_metrics_def)
qed

lemma divide_and_round_nearest:
  assumes "0 < b"
  shows "2 * \<bar>divide_and_round a b * b - a\<bar> \<le> b"
proof -
  have a: "a = (a div b) * b + a mod b" by simp
  have r: "0 \<le> a mod b" "a mod b < b" using assms by simp_all
  show ?thesis
  proof (cases "(a mod b) * 2 > b \<or> ((a mod b) * 2 = b \<and> (a div b) mod 2 = 1)")
    case True
    then have "divide_and_round a b = a div b + 1" by (simp add: divide_and_round_def Let_def)
    then have "divide_and_round a b * b - a = b - a mod b"
      using a by (simp add: algebra_simps)
    with True r show ?thesis by auto
  next
    case False
    then have "divide_and_round a b = a div b" by (simp add: divide_and_round_def Let_def)
    then have "divide_and_round a b * b - a = - (a mod b)"
      using a by (simp add: algebra_simps)
    with False r show ?thesis by auto
  qed
qed

lemma divide_and_round_exact: "0 < b \<Longrightarrow> b dvd a \<Longrightarrow> divide_and_round a b = a div b"
  by (auto simp: divide_and_round_def Let_def)

subsection \<open>Evaluation of the example inputs\<close>

lemmas strptime_defs =
  strptime_initial_def strptime_current_def parse_fields_def field_def digit_def
  make_datetime_def days_in_month_def january_def

lemma strptime_initial_examples:
  "strptime_initial ''20240101_080000'' = Some (january 1 8 0)"
  "strptime_initial ''20240101_085000'' = Some (january 1 8 50)"
  "strptime_initial ''20240101_090000'' = Some (january 1 9 0)"
  "strptime_initial ''20240101_090500'' = Some (january 1 9 5)"
  "strptime_initial ''20240102_090000'' = Some (january 2 9 0)"
  "strptime_initial ''not-a-timestamp'' = None"
  by (simp_all add: strptime_defs)

lemma strptime_current_examples:
  "strptime_current ''2024-01-01 08:00:00'' = Some (january 1 8 0)"
  "strptime_current ''2024-01-01 10:00:00'' = Some (january 1 10 0)"
  "strptime_current ''2024-01-01 13:00:00'' = Some (january 1 13 0)"
  "strptime_current ''2024-01-01 14:00:00'' = Some (january 1 14 0)"
  "strptime_current ''2024-01-02 10:00:00'' = Some (january 2 10 0)"
  "strptime_current ''2024-01-01T10:00:00'' = None"
  by (simp_all add: strptime_defs)

lemma strftime_day_january:
  "strftime_day (january 1 H M) = ''2024-01-01''"
  "strftime_day (january (Suc 0) H M) = ''2024-01-01''"
  "strftime_day (january 2 H M) = ''2024-01-02''"
  by (simp_all add: strftime_day_def january_def pad2_def pad4_def digit_char_def)

lemma datetime_sub_january:
  "datetime_sub (january D' H' M') (january D H M) =
     (((int D' * 24 + int H') * 60 + int M') - ((int D * 24 + int H) * 60 + int M)) * 60000000"
  by (simp add: datetime_sub_def toordinal_def seconds_of_day_def january_def algebra_simps)

lemma datetime_less_january:
  "datetime_less (january D H M) (january D' H' M') \<longleftrightarrow>
     D < D' \<or> (D = D' \<and> (H < H' \<or> (H = H' \<and> M < M')))"
  by (auto simp: datetime_less_def datetime_key_def january_def)

lemmas example_simps =
  strptime_initial_examples strptime_current_examples strftime_day_january
  datetime_sub_january datetime_less_january
  process_reading_def reading_of_def seed_metrics_def update_metrics_def Let_def
  timedelta_hours_def datetime_min_def

lemmas finalize_simps =
  aggregate_metrics_def finalize_def finalize_metrics_def sort_metrics_def
  timedelta_truediv_def divide_and_round_def

text \<open>A call without batches creates no group and changes no running field; it sets
  \<^verbatim>\<open>average_hold_time\<close> again from the fields of each group.\<close>

lemma aggregate_metrics_no_batches:
  "aggregate_metrics (fetch_sensor_readings Query_raised) dm location_name
     = Inr (sort_metrics (finalize dm))"
  "group_of (sort_metrics (finalize dm)) d l = map_option finalize_metrics (group_of dm d l)"
  by (simp_all add: fetch_sensor_readings_def aggregate_metrics_def
        group_of_sort_metrics group_of_finalize)

section \<open>The claims\<close>

subsection \<open>C1: the percentage of a group with one exceeding reading\<close>

text \<open>
  Claim C1. A group whose only reading has a hold time above four hours has
  \<^verbatim>\<open>percentage_trays_over_hold = 100.0\<close>, and the percentage is recomputed whenever a reading
  above the threshold is processed.

  The code does not do this for the reading that creates the group: the dictionary literal
  of lines 83 to 91 stores the literal \<^verbatim>\<open>0\<close> as percentage next to
  \<^verbatim>\<open>trays_exceeding_hold_time = 1\<close>. Only the update of an existing group recomputes the
  percentage (\<open>update_metrics_fields\<close>). The theorem runs the code on one batch with one
  reading held for five hours: the percentage of the group is 0.
\<close>

theorem single_exceeding_reading_percentage:
  "aggregate_metrics
     (Some [Some [reading_of ''20240101_080000'' ''2024-01-01 13:00:00'']]) [] ''Store A''
   = Inr [(''2024-01-01'', [(''Store A'',
       \<lparr>first_tray_time = january 1 8 0, last_tray_count = 1, last_tray_time = january 1 8 0,
        percentage_trays_over_hold = 0, total_trays = 1, trays_exceeding_hold_time = 1,
        total_hold_time = timedelta_hours 5,
        average_hold_time = Some (Avg_timedelta (timedelta_hours 5))\<rparr>)])]"
  by (simp add: example_simps finalize_simps)

subsection \<open>C2: a timestamp that does not parse\<close>

text \<open>
  Claim C2. A reading whose \<^verbatim>\<open>initial_timestamp\<close> or \<^verbatim>\<open>current_timestamp\<close> does not parse is
  skipped without a change of the state, and ingestion raises no exception.

  The \<^verbatim>\<open>try\<close> block of the code catches \<^verbatim>\<open>KeyError\<close> only, and \<^verbatim>\<open>strptime\<close> raises
  \<^verbatim>\<open>ValueError\<close> on such a string: the call ends with that exception. The theorem runs the
  code on a batch of three readings whose second one has an initial timestamp that does not
  parse, and on a batch whose only reading has a current timestamp that does not parse.
\<close>

theorem unparseable_timestamp_aborts:
  "aggregate_metrics
     (Some [Some [reading_of ''20240101_090000'' ''2024-01-01 10:00:00'',
                  reading_of ''not-a-timestamp'' ''2024-01-01 10:00:00'',
                  reading_of ''20240101_090500'' ''2024-01-01 10:00:00'']]) [] ''Store A''
     = Inl ValueError
   \<and> aggregate_metrics
     (Some [Some [reading_of ''20240101_090000'' ''2024-01-01T10:00:00'']]) [] ''Store A''
     = Inl ValueError"
  by (simp add: example_simps finalize_simps)

subsection \<open>C3: the tie-break of the last tray\<close>

text \<open>
  Claim C3. For an existing group, a reading sets \<^verbatim>\<open>last_tray_time\<close> and \<^verbatim>\<open>last_tray_count\<close>
  to the initial timestamp and the tray count of its batch if and only if the tray count of
  the batch is greater than the stored \<^verbatim>\<open>last_tray_count\<close>, or equal to it with an initial
  timestamp later than the stored \<^verbatim>\<open>last_tray_time\<close>; otherwise both fields stay as they
  are. The reading belongs to its batch, so the tray count of the batch is at least one.
\<close>

theorem last_tray_tie_break:
  assumes "initial_timestamp r = Some s" and "strptime_initial s = Some initial"
    and "current_timestamp r = Some c" and "strptime_current c = Some current"
    and "group_of dm (strftime_day initial) location_name = Some g"
    and "1 \<le> batch_trays"
  shows "\<exists>dm' g'. process_reading batch_trays location_name dm r = Inr dm'
           \<and> group_of dm' (strftime_day initial) location_name = Some g'
           \<and> (last_tray_time g', last_tray_count g') =
               (if batch_trays > last_tray_count g
                   \<or> (batch_trays = last_tray_count g
                       \<and> datetime_less (last_tray_time g) initial)
                then (initial, batch_trays)
                else (last_tray_time g, last_tray_count g))"
proof -
  from assms(6) have "timedelta_hours 4 < datetime_sub current initial
      \<longrightarrow> 0 < max batch_trays (total_trays g)" by (auto simp: max_def)
  from update_metrics_returns [OF this] obtain m where
    m: "update_metrics batch_trays initial (datetime_sub current initial) g = Inr m" by blast
  let ?dm' = "AList.update (strftime_day initial) (AList.update location_name m
      (case map_of dm (strftime_day initial) of None \<Rightarrow> [] | Some st \<Rightarrow> st)) dm"
  have "process_reading batch_trays location_name dm r = Inr ?dm'"
    by (simp add: process_reading_parsed [OF assms(1-4)] assms(5) m)
  moreover have "group_of ?dm' (strftime_day initial) location_name = Some m"
    by (simp add: group_of_update)
  moreover have "(last_tray_time m, last_tray_count m) =
               (if batch_trays > last_tray_count g
                   \<or> (batch_trays = last_tray_count g
                       \<and> datetime_less (last_tray_time g) initial)
                then (initial, batch_trays)
                else (last_tray_time g, last_tray_count g))"
    by (simp add: update_metrics_fields(6,7) [OF m])
  ultimately show ?thesis by blast
qed

text \<open>The example of the specification: batch A with five readings placed at 09:00, batch B
  with five readings placed at 09:05, batch C with six readings placed at 08:50. After A and
  B the last tray is (09:05, 5); the first reading of C sets it to (08:50, 6), where it is
  at the end of the run.\<close>

theorem last_tray_tie_break_witness:
  "process_batches ''Store A'' []
     [Some (replicate 5 (reading_of ''20240101_090000'' ''2024-01-01 10:00:00'')),
      Some (replicate 5 (reading_of ''20240101_090500'' ''2024-01-01 10:00:00''))]
   = Inr [(''2024-01-01'', [(''Store A'',
       \<lparr>first_tray_time = january 1 9 0, last_tray_count = 5, last_tray_time = january 1 9 5,
        percentage_trays_over_hold = 0, total_trays = 5, trays_exceeding_hold_time = 0,
        total_hold_time = 34500000000, average_hold_time = None\<rparr>)])]
   \<and> (\<exists>dm' g'. process_reading 6 ''Store A''
         [(''2024-01-01'', [(''Store A'',
           \<lparr>first_tray_time = january 1 9 0, last_tray_count = 5, last_tray_time = january 1 9 5,
            percentage_trays_over_hold = 0, total_trays = 5, trays_exceeding_hold_time = 0,
            total_hold_time = 34500000000, average_hold_time = None\<rparr>)])]
         (reading_of ''20240101_085000'' ''2024-01-01 10:00:00'') = Inr dm'
       \<and> group_of dm' ''2024-01-01'' ''Store A'' = Some g'
       \<and> (last_tray_time g', last_tray_count g') = (january 1 8 50, 6))
   \<and> process_batches ''Store A'' []
     [Some (replicate 5 (reading_of ''20240101_090000'' ''2024-01-01 10:00:00'')),
      Some (replicate 5 (reading_of ''20240101_090500'' ''2024-01-01 10:00:00'')),
      Some (replicate 6 (reading_of ''20240101_085000'' ''2024-01-01 10:00:00''))]
   = Inr [(''2024-01-01'', [(''Store A'',
       \<lparr>first_tray_time = january 1 8 50, last_tray_count = 6, last_tray_time = january 1 8 50,
        percentage_trays_over_hold = 0, total_trays = 6, trays_exceeding_hold_time = 0,
        total_hold_time = 59700000000, average_hold_time = None\<rparr>)])]"
proof -
  let ?g = "\<lparr>first_tray_time = january 1 9 0, last_tray_count = 5, last_tray_time = january 1 9 5,
        percentage_trays_over_hold = 0, total_trays = 5, trays_exceeding_hold_time = 0,
        total_hold_time = 34500000000, average_hold_time = None\<rparr>"
  let ?dm = "[(''2024-01-01'', [(''Store A'', ?g)])]"
  let ?r = "reading_of ''20240101_085000'' ''2024-01-01 10:00:00''"
  have h1: "initial_timestamp ?r = Some ''20240101_085000''" by (simp add: reading_of_def)
  have h2: "strptime_initial ''20240101_085000'' = Some (january 1 8 50)"
    by (rule strptime_initial_examples)
  have h3: "current_timestamp ?r = Some ''2024-01-01 10:00:00''" by (simp add: reading_of_def)
  have h4: "strptime_current ''2024-01-01 10:00:00'' = Some (january 1 10 0)"
    by (rule strptime_current_examples)
  have h5: "group_of ?dm (strftime_day (january 1 8 50)) ''Store A'' = Some ?g"
    by (simp add: group_of_def strftime_day_january)
  have h6: "1 \<le> (6::nat)" by simp
  from last_tray_tie_break [OF h1 h2 h3 h4 h5 h6]
  have "\<exists>dm' g'. process_reading 6 ''Store A'' ?dm ?r = Inr dm'
       \<and> group_of dm' ''2024-01-01'' ''Store A'' = Some g'
       \<and> (last_tray_time g', last_tray_count g') = (january 1 8 50, 6)"
    by (simp add: strftime_day_january)
  moreover have "process_batches ''Store A'' []
     [Some (replicate 5 (reading_of ''20240101_090000'' ''2024-01-01 10:00:00'')),
      Some (replicate 5 (reading_of ''20240101_090500'' ''2024-01-01 10:00:00''))] = Inr ?dm"
    by (simp add: example_simps numeral_eq_Suc)
  moreover have "process_batches ''Store A'' []
     [Some (replicate 5 (reading_of ''20240101_090000'' ''2024-01-01 10:00:00'')),
      Some (replicate 5 (reading_of ''20240101_090500'' ''2024-01-01 10:00:00'')),
      Some (replicate 6 (reading_of ''20240101_085000'' ''2024-01-01 10:00:00''))]
   = Inr [(''2024-01-01'', [(''Store A'',
       \<lparr>first_tray_time = january 1 8 50, last_tray_count = 6, last_tray_time = january 1 8 50,
        percentage_trays_over_hold = 0, total_trays = 6, trays_exceeding_hold_time = 0,
        total_hold_time = 59700000000, average_hold_time = None\<rparr>)])]"
    by (simp add: example_simps numeral_eq_Suc)
  ultimately show ?thesis by blast
qed

subsection \<open>C4: the running fields of a group are monotone\<close>

text \<open>
  Claim C4. In every group, \<^verbatim>\<open>total_trays\<close> and \<^verbatim>\<open>trays_exceeding_hold_time\<close> never decrease
  and \<^verbatim>\<open>first_tray_time\<close> never increases, across the readings and the batches of a run.

  The first part of the theorem is one reading that is processed, the second part a whole
  call of \<^verbatim>\<open>aggregate_metrics\<close> from any dictionary; a reading that is skipped leaves the
  dictionary as it is. The group exists before, it exists after, and its fields have moved
  in the stated direction only. The loops in between are \<open>process_readings_mono\<close> and
  \<open>process_batches_mono\<close>.
\<close>

theorem running_fields_monotone:
  "(process_reading batch_trays location_name dm r = Inr dm1 \<and> group_of dm d l = Some g
      \<longrightarrow> (\<exists>g'. group_of dm1 d l = Some g'
             \<and> total_trays g \<le> total_trays g'
             \<and> trays_exceeding_hold_time g \<le> trays_exceeding_hold_time g'
             \<and> datetime_le (first_tray_time g') (first_tray_time g)))
   \<and> (aggregate_metrics data dm location_name = Inr dm2 \<and> group_of dm d l = Some g
      \<longrightarrow> (\<exists>g'. group_of dm2 d l = Some g'
             \<and> total_trays g \<le> total_trays g'
             \<and> trays_exceeding_hold_time g \<le> trays_exceeding_hold_time g'
             \<and> datetime_le (first_tray_time g') (first_tray_time g)))"
  using process_reading_mono [of batch_trays location_name dm r dm1 d l g]
    aggregate_metrics_mono [of data dm location_name dm2 d l g]
  by blast

text \<open>The example of the specification: batches with 3, 5, 2 and 7 readings. After the
  first batch the group has three trays. The first reading of the batch of five takes it to
  five; the batches of 5, 2 and 7 readings take it to seven, and the batch of two readings
  does not take it down.\<close>

theorem running_fields_monotone_witness:
  "process_batches ''Store A'' []
       [Some (replicate 3 (reading_of ''20240101_090000'' ''2024-01-01 10:00:00'')),
        Some (replicate 5 (reading_of ''20240101_090000'' ''2024-01-01 10:00:00'')),
        Some (replicate 2 (reading_of ''20240101_090000'' ''2024-01-01 10:00:00'')),
        Some (replicate 7 (reading_of ''20240101_090000'' ''2024-01-01 10:00:00''))]
   = Inr [(''2024-01-01'', [(''Store A'',
        \<lparr>first_tray_time = january 1 9 0, last_tray_count = 7, last_tray_time = january 1 9 0,
         percentage_trays_over_hold = 0, total_trays = 7, trays_exceeding_hold_time = 0,
         total_hold_time = 61200000000, average_hold_time = None\<rparr>)])]
   \<and> process_reading 5 ''Store A''
       [(''2024-01-01'', [(''Store A'',
          \<lparr>first_tray_time = january 1 9 0, last_tray_count = 3, last_tray_time = january 1 9 0,
           percentage_trays_over_hold = 0, total_trays = 3, trays_exceeding_hold_time = 0,
           total_hold_time = 10800000000, average_hold_time = None\<rparr>)])]
       (reading_of ''20240101_090000'' ''2024-01-01 10:00:00'')
     = Inr [(''2024-01-01'', [(''Store A'',
          \<lparr>first_tray_time = january 1 9 0, last_tray_count = 5, last_tray_time = january 1 9 0,
           percentage_trays_over_hold = 0, total_trays = 5, trays_exceeding_hold_time = 0,
           total_hold_time = 14400000000, average_hold_time = None\<rparr>)])]
   \<and> aggregate_metrics
       (Some [Some (replicate 5 (reading_of ''20240101_090000'' ''2024-01-01 10:00:00'')),
              Some (replicate 2 (reading_of ''20240101_090000'' ''2024-01-01 10:00:00'')),
              Some (replicate 7 (reading_of ''20240101_090000'' ''2024-01-01 10:00:00''))])
       [(''2024-01-01'', [(''Store A'',
          \<lparr>first_tray_time = january 1 9 0, last_tray_count = 3, last_tray_time = january 1 9 0,
           percentage_trays_over_hold = 0, total_trays = 3, trays_exceeding_hold_time = 0,
           total_hold_time = 10800000000, average_hold_time = None\<rparr>)])]
       ''Store A''
     = Inr [(''2024-01-01'', [(''Store A'',
          \<lparr>first_tray_time = january 1 9 0, last_tray_count = 7, last_tray_time = january 1 9 0,
           percentage_trays_over_hold = 0, total_trays = 7, trays_exceeding_hold_time = 0,
           total_hold_time = 61200000000,
           average_hold_time = Some (Avg_timedelta 8742857143)\<rparr>)])]
   \<and> (\<exists>g'. group_of
          [(''2024-01-01'', [(''Store A'',
             \<lparr>first_tray_time = january 1 9 0, last_tray_count = 5,
              last_tray_time = january 1 9 0,
              percentage_trays_over_hold = 0, total_trays = 5, trays_exceeding_hold_time = 0,
              total_hold_time = 14400000000, average_hold_time = None\<rparr>)])]
          ''2024-01-01'' ''Store A'' = Some g'
        \<and> 3 \<le> total_trays g' \<and> 0 \<le> trays_exceeding_hold_time g'
        \<and> datetime_le (first_tray_time g') (january 1 9 0))
   \<and> (\<exists>g'. group_of
          [(''2024-01-01'', [(''Store A'',
             \<lparr>first_tray_time = january 1 9 0, last_tray_count = 7,
              last_tray_time = january 1 9 0,
              percentage_trays_over_hold = 0, total_trays = 7, trays_exceeding_hold_time = 0,
              total_hold_time = 61200000000,
              average_hold_time = Some (Avg_timedelta 8742857143)\<rparr>)])]
          ''2024-01-01'' ''Store A'' = Some g'
        \<and> 3 \<le> total_trays g' \<and> 0 \<le> trays_exceeding_hold_time g'
        \<and> datetime_le (first_tray_time g') (january 1 9 0))"
proof -
  let ?r = "reading_of ''20240101_090000'' ''2024-01-01 10:00:00''"
  let ?g3 = "\<lparr>first_tray_time = january 1 9 0, last_tray_count = 3, last_tray_time = january 1 9 0,
           percentage_trays_over_hold = 0, total_trays = 3, trays_exceeding_hold_time = 0,
           total_hold_time = 10800000000, average_hold_time = None\<rparr>"
  let ?g5 = "\<lparr>first_tray_time = january 1 9 0, last_tray_count = 5, last_tray_time = january 1 9 0,
           percentage_trays_over_hold = 0, total_trays = 5, trays_exceeding_hold_time = 0,
           total_hold_time = 14400000000, average_hold_time = None\<rparr>"
  let ?g7 = "\<lparr>first_tray_time = january 1 9 0, last_tray_count = 7,
              last_tray_time = january 1 9 0,
              percentage_trays_over_hold = 0, total_trays = 7, trays_exceeding_hold_time = 0,
              total_hold_time = 61200000000,
              average_hold_time = Some (Avg_timedelta 8742857143)\<rparr>"
  let ?dm3 = "[(''2024-01-01'', [(''Store A'', ?g3)])]"
  let ?dm5 = "[(''2024-01-01'', [(''Store A'', ?g5)])]"
  let ?dm7 = "[(''2024-01-01'', [(''Store A'', ?g7)])]"
  let ?data = "Some [Some (replicate 5 ?r), Some (replicate 2 ?r), Some (replicate 7 ?r)]"
  have run: "process_batches ''Store A'' []
       [Some (replicate 3 ?r), Some (replicate 5 ?r), Some (replicate 2 ?r), Some (replicate 7 ?r)]
     = Inr [(''2024-01-01'', [(''Store A'', ?g7\<lparr>average_hold_time := None\<rparr>)])]"
    by (simp add: example_simps numeral_eq_Suc)
  have step: "process_reading 5 ''Store A'' ?dm3 ?r = Inr ?dm5"
    by (simp add: example_simps)
  have call: "aggregate_metrics ?data ?dm3 ''Store A'' = Inr ?dm7"
    by (simp add: example_simps finalize_simps numeral_eq_Suc)
  have before: "group_of ?dm3 ''2024-01-01'' ''Store A'' = Some ?g3"
    by (simp add: group_of_def)
  note mono = running_fields_monotone [of 5 "''Store A''" ?dm3 ?r ?dm5
      "''2024-01-01''" "''Store A''" ?g3 ?data ?dm7]
  from mono [THEN conjunct1] step before
  have after_step: "\<exists>g'. group_of ?dm5 ''2024-01-01'' ''Store A'' = Some g'
        \<and> 3 \<le> total_trays g' \<and> 0 \<le> trays_exceeding_hold_time g'
        \<and> datetime_le (first_tray_time g') (january 1 9 0)"
    by simp
  from mono [THEN conjunct2] call before
  have after_call: "\<exists>g'. group_of ?dm7 ''2024-01-01'' ''Store A'' = Some g'
        \<and> 3 \<le> total_trays g' \<and> 0 \<le> trays_exceeding_hold_time g'
        \<and> datetime_le (first_tray_time g') (january 1 9 0)"
    by simp
  from run step call after_step after_call show ?thesis by simp
qed

subsection \<open>C5: the average hold time\<close>

text \<open>
  Claim C5. After the second loop of \<^verbatim>\<open>aggregate_metrics\<close> every group has
  \<^verbatim>\<open>average_hold_time = total_hold_time / total_trays\<close> when \<^verbatim>\<open>total_trays > 0\<close>, and \<^verbatim>\<open>0\<close>
  otherwise. The quotient is the division of a \<^verbatim>\<open>timedelta\<close> by an integer, which is the
  nearest whole number of microseconds: the theorem gives the value and its distance to
  the exact quotient.
\<close>

theorem average_hold_time_finalized:
  assumes "aggregate_metrics data dm location_name = Inr dm'"
    and "group_of dm' d l = Some g"
  shows "average_hold_time g =
           Some (if total_trays g > 0
                 then Avg_timedelta (timedelta_truediv (total_hold_time g) (total_trays g))
                 else Avg_int 0)
         \<and> (if total_trays g > 0
            then 2 * \<bar>timedelta_truediv (total_hold_time g) (total_trays g) * int (total_trays g)
                       - total_hold_time g\<bar> \<le> int (total_trays g)
            else average_hold_time g = Some (Avg_int 0))"
proof -
  from aggregate_metrics_Inr [OF assms(1)] obtain dm1 where
    "\<And>d l. group_of dm' d l = map_option finalize_metrics (group_of dm1 d l)" by blast
  with assms(2) obtain g1 where g: "g = finalize_metrics g1" by auto
  have avg: "average_hold_time g =
           Some (if total_trays g > 0
                 then Avg_timedelta (timedelta_truediv (total_hold_time g) (total_trays g))
                 else Avg_int 0)"
    by (simp add: g finalize_metrics_def)
  show ?thesis
  proof (cases "total_trays g > 0")
    case True
    then have "0 < int (total_trays g)" by simp
    from divide_and_round_nearest [OF this, of "total_hold_time g"] avg True
    show ?thesis by (simp add: timedelta_truediv_def)
  next
    case False
    with avg show ?thesis by simp
  qed
qed

text \<open>The example of the specification: one batch of two readings held for two hours and
  for six hours; the average of the group is four hours.\<close>

theorem average_hold_time_finalized_witness:
  "aggregate_metrics
     (Some [Some [reading_of ''20240101_080000'' ''2024-01-01 10:00:00'',
                  reading_of ''20240101_080000'' ''2024-01-01 14:00:00'']]) [] ''Store A''
   = Inr [(''2024-01-01'', [(''Store A'',
       \<lparr>first_tray_time = january 1 8 0, last_tray_count = 2, last_tray_time = january 1 8 0,
        percentage_trays_over_hold = 50, total_trays = 2, trays_exceeding_hold_time = 1,
        total_hold_time = timedelta_hours 8,
        average_hold_time = Some (Avg_timedelta (timedelta_hours 4))\<rparr>)])]
   \<and> timedelta_truediv (timedelta_hours 8) 2 = timedelta_hours 4
   \<and> 2 * \<bar>timedelta_truediv (timedelta_hours 8) 2 * 2 - timedelta_hours 8\<bar> \<le> 2"
proof -
  let ?g = "\<lparr>first_tray_time = january 1 8 0, last_tray_count = 2, last_tray_time = january 1 8 0,
        percentage_trays_over_hold = 50, total_trays = 2, trays_exceeding_hold_time = 1,
        total_hold_time = timedelta_hours 8,
        average_hold_time = Some (Avg_timedelta (timedelta_hours 4))\<rparr>"
  have call: "aggregate_metrics
     (Some [Some [reading_of ''20240101_080000'' ''2024-01-01 10:00:00'',
                  reading_of ''20240101_080000'' ''2024-01-01 14:00:00'']]) [] ''Store A''
   = Inr [(''2024-01-01'', [(''Store A'', ?g)])]"
    by (simp add: example_simps finalize_simps)
  have grp: "group_of [(''2024-01-01'', [(''Store A'', ?g)])] ''2024-01-01'' ''Store A'' = Some ?g"
    by (simp add: group_of_def)
  from average_hold_time_finalized [OF call grp] call
  show ?thesis by simp
qed

subsection \<open>C6: the order of the result\<close>

text \<open>
  Claim C6. The dictionary that \<^verbatim>\<open>aggregate_metrics\<close> returns has its days in ascending
  lexicographic order and, within each day, its location names in ascending order, for
  every input. The result is a function of the input, so two runs on the same input give
  the same result in the same order.
\<close>

theorem result_sorted:
  assumes "aggregate_metrics data dm location_name = Inr dm'"
  shows "sorted (map fst dm') \<and> (\<forall>(day, st) \<in> set dm'. sorted (map fst st))"
proof -
  from aggregate_metrics_Inr [OF assms] obtain dm1 where
    dm': "dm' = sort_metrics (finalize dm1)" by blast
  have "map fst (sort_metrics (finalize dm1)) = map fst (sort_key fst (finalize dm1))"
    by (simp add: sort_metrics_def case_prod_unfold comp_def)
  then have "sorted (map fst dm')"
    by (simp add: dm' sorted_sort_key)
  moreover have "\<forall>(day, st) \<in> set dm'. sorted (map fst st)"
    by (auto simp: dm' sort_metrics_def sorted_sort_key)
  ultimately show ?thesis by blast
qed

text \<open>A dictionary that holds Store B on the second of January, and a call for Store A
  with a reading of the second and then a reading of the first: the keys are inserted in
  the order 02 (B, A), 01 (A) and returned in the order 01 (A), 02 (A, B).\<close>

theorem result_sorted_witness:
  "aggregate_metrics
     (Some [Some [reading_of ''20240102_090000'' ''2024-01-02 10:00:00'',
                  reading_of ''20240101_090000'' ''2024-01-01 10:00:00'']])
     [(''2024-01-02'', [(''Store B'',
        \<lparr>first_tray_time = january 2 9 0, last_tray_count = 1, last_tray_time = january 2 9 0,
         percentage_trays_over_hold = 0, total_trays = 1, trays_exceeding_hold_time = 0,
         total_hold_time = timedelta_hours 1,
         average_hold_time = Some (Avg_timedelta (timedelta_hours 1))\<rparr>)])]
     ''Store A''
   = Inr [(''2024-01-01'', [(''Store A'',
            \<lparr>first_tray_time = january 1 9 0, last_tray_count = 2,
             last_tray_time = january 1 9 0,
             percentage_trays_over_hold = 0, total_trays = 2, trays_exceeding_hold_time = 0,
             total_hold_time = timedelta_hours 1,
             average_hold_time = Some (Avg_timedelta (timedelta_hours 1 div 2))\<rparr>)]),
          (''2024-01-02'', [(''Store A'',
            \<lparr>first_tray_time = january 2 9 0, last_tray_count = 2,
             last_tray_time = january 2 9 0,
             percentage_trays_over_hold = 0, total_trays = 2, trays_exceeding_hold_time = 0,
             total_hold_time = timedelta_hours 1,
             average_hold_time = Some (Avg_timedelta (timedelta_hours 1 div 2))\<rparr>),
            (''Store B'',
            \<lparr>first_tray_time = january 2 9 0, last_tray_count = 1,
             last_tray_time = january 2 9 0,
             percentage_trays_over_hold = 0, total_trays = 1, trays_exceeding_hold_time = 0,
             total_hold_time = timedelta_hours 1,
             average_hold_time = Some (Avg_timedelta (timedelta_hours 1))\<rparr>)])]
   \<and> sorted [''2024-01-01'', ''2024-01-02''] \<and> sorted [''Store A''] \<and> sorted [''Store A'', ''Store B'']"
proof -
  let ?data = "Some [Some [reading_of ''20240102_090000'' ''2024-01-02 10:00:00'',
                  reading_of ''20240101_090000'' ''2024-01-01 10:00:00'']]"
  let ?gB = "\<lparr>first_tray_time = january 2 9 0, last_tray_count = 1, last_tray_time = january 2 9 0,
         percentage_trays_over_hold = 0, total_trays = 1, trays_exceeding_hold_time = 0,
         total_hold_time = timedelta_hours 1,
         average_hold_time = Some (Avg_timedelta (timedelta_hours 1))\<rparr>"
  let ?gA1 = "\<lparr>first_tray_time = january 1 9 0, last_tray_count = 2,
             last_tray_time = january 1 9 0,
             percentage_trays_over_hold = 0, total_trays = 2, trays_exceeding_hold_time = 0,
             total_hold_time = timedelta_hours 1,
             average_hold_time = Some (Avg_timedelta (timedelta_hours 1 div 2))\<rparr>"
  let ?gA2 = "\<lparr>first_tray_time = january 2 9 0, last_tray_count = 2,
             last_tray_time = january 2 9 0,
             percentage_trays_over_hold = 0, total_trays = 2, trays_exceeding_hold_time = 0,
             total_hold_time = timedelta_hours 1,
             average_hold_time = Some (Avg_timedelta (timedelta_hours 1 div 2))\<rparr>"
  have call: "aggregate_metrics ?data [(''2024-01-02'', [(''Store B'', ?gB)])] ''Store A''
    = Inr [(''2024-01-01'', [(''Store A'', ?gA1)]),
           (''2024-01-02'', [(''Store A'', ?gA2), (''Store B'', ?gB)])]"
    by (simp add: example_simps finalize_simps)
  from result_sorted [OF call] call show ?thesis by simp
qed

subsection \<open>C7: a location without batches\<close>

text \<open>
  Claim C7. A location that yields no batches, also one whose fetch failed, contributes
  nothing and causes no error.

  A fetch that raises gives the empty list, which \<^verbatim>\<open>aggregate_metrics\<close> accepts
  (\<open>aggregate_metrics_no_batches\<close>). A query that answers with an empty list gives the value
  of \<^verbatim>\<open>print\<close>, which is \<^verbatim>\<open>None\<close> (line 58), and the loop of line 70 over \<^verbatim>\<open>None\<close> raises
  \<^verbatim>\<open>TypeError\<close>, which ends the run whatever the dictionary and the other locations are.
\<close>

theorem empty_response_raises:
  "fetch_sensor_readings (Query_response []) = None
   \<and> aggregate_metrics (fetch_sensor_readings (Query_response [])) dm location_name
       = Inl TypeError
   \<and> main_loop ((Query_response [], location_name) # rest) dm = Inl TypeError"
  by (simp add: fetch_sensor_readings_def aggregate_metrics_def)

subsection \<open>C8: a reading that misses a field\<close>


lemma missing_field_not_well_formed: "missing_field r \<Longrightarrow> \<not> well_formed r"
  by (auto simp: missing_field_def well_formed_def)






subsection \<open>C9: a negative hold time\<close>

text \<open>
  Claim C9. A reading whose hold time is negative is a malformed record: it is skipped and
  contributes to no group, so that every hold time in a total is non-negative.

  The code has no test of the sign of \<^verbatim>\<open>hold_time\<close>. The reading whose current timestamp
  is one hour before its initial timestamp creates its group, with a total hold time of
  minus one hour.
\<close>

theorem negative_hold_time_ingested:
  "datetime_sub (january 1 8 0) (january 1 9 0) < 0
   \<and> aggregate_metrics
     (Some [Some [reading_of ''20240101_090000'' ''2024-01-01 08:00:00'']]) [] ''Store A''
   = Inr [(''2024-01-01'', [(''Store A'',
       \<lparr>first_tray_time = january 1 9 0, last_tray_count = 1, last_tray_time = january 1 9 0,
        percentage_trays_over_hold = 0, total_trays = 1, trays_exceeding_hold_time = 0,
        total_hold_time = - timedelta_hours 1,
        average_hold_time = Some (Avg_timedelta (- timedelta_hours 1))\<rparr>)])]"
  by (simp add: example_simps finalize_simps)

text \<open>
  Claim C9 as amended. A reading whose two timestamps parse is processed whatever the sign
  of its hold time. When the hold time is negative, the call of the loop body returns, the
  group of the reading has its total hold time increased by that negative amount (from 0
  when the reading creates the group), and the count of exceeding trays is as before.
\<close>

theorem negative_hold_time_accumulated:
  assumes "initial_timestamp r = Some s" and "strptime_initial s = Some initial"
    and "current_timestamp r = Some c" and "strptime_current c = Some current"
    and "datetime_sub current initial < 0"
  shows "\<exists>dm' g'. process_reading batch_trays location_name dm r = Inr dm'
           \<and> group_of dm' (strftime_day initial) location_name = Some g'
           \<and> total_hold_time g' =
               (case group_of dm (strftime_day initial) location_name of
                  None \<Rightarrow> 0 | Some g \<Rightarrow> total_hold_time g) + datetime_sub current initial
           \<and> trays_exceeding_hold_time g' =
               (case group_of dm (strftime_day initial) location_name of
                  None \<Rightarrow> 0 | Some g \<Rightarrow> trays_exceeding_hold_time g)"
proof -
  let ?h = "datetime_sub current initial"
  let ?day = "strftime_day initial"
  let ?st = "case map_of dm ?day of None \<Rightarrow> [] | Some st \<Rightarrow> st"
  from assms(5) have low: "\<not> timedelta_hours 4 < ?h" by (simp add: timedelta_hours_def)
  show ?thesis
  proof (cases "group_of dm ?day location_name")
    case None
    let ?m = "seed_metrics batch_trays initial ?h"
    have "process_reading batch_trays location_name dm r
        = Inr (AList.update ?day (AList.update location_name ?m ?st) dm)"
      by (simp add: process_reading_parsed [OF assms(1-4)] None)
    moreover have "group_of (AList.update ?day (AList.update location_name ?m ?st) dm)
        ?day location_name = Some ?m"
      by (simp add: group_of_update)
    moreover have "total_hold_time ?m = ?h" "trays_exceeding_hold_time ?m = 0"
      using low by (simp_all add: seed_metrics_def)
    ultimately show ?thesis using None by simp
  next
    case (Some g)
    from low have "timedelta_hours 4 < ?h \<longrightarrow> 0 < max batch_trays (total_trays g)" by simp
    from update_metrics_returns [OF this] obtain m where
      m: "update_metrics batch_trays initial ?h g = Inr m" by blast
    have "process_reading batch_trays location_name dm r
        = Inr (AList.update ?day (AList.update location_name m ?st) dm)"
      by (simp add: process_reading_parsed [OF assms(1-4)] Some m)
    moreover have "group_of (AList.update ?day (AList.update location_name m ?st) dm)
        ?day location_name = Some m"
      by (simp add: group_of_update)
    moreover have "total_hold_time m = total_hold_time g + ?h"
      "trays_exceeding_hold_time m = trays_exceeding_hold_time g"
      using low by (simp_all add: update_metrics_fields [OF m])
    ultimately show ?thesis using Some by simp
  qed
qed

text \<open>A group with one reading held for one hour, and a reading of the same day whose
  current timestamp is one hour before its initial timestamp: the total goes down to 0.\<close>

theorem negative_hold_time_accumulated_witness:
  "datetime_sub (january 1 8 0) (january 1 9 0) < 0
   \<and> (\<exists>dm' g'. process_reading 2 ''Store A''
         [(''2024-01-01'', [(''Store A'',
            \<lparr>first_tray_time = january 1 9 0, last_tray_count = 2,
             last_tray_time = january 1 9 0,
             percentage_trays_over_hold = 0, total_trays = 2, trays_exceeding_hold_time = 0,
             total_hold_time = timedelta_hours 1, average_hold_time = None\<rparr>)])]
         (reading_of ''20240101_090000'' ''2024-01-01 08:00:00'') = Inr dm'
       \<and> group_of dm' ''2024-01-01'' ''Store A'' = Some g'
       \<and> total_hold_time g' = 0 \<and> trays_exceeding_hold_time g' = 0)"
proof -
  let ?g = "\<lparr>first_tray_time = january 1 9 0, last_tray_count = 2,
             last_tray_time = january 1 9 0,
             percentage_trays_over_hold = 0, total_trays = 2, trays_exceeding_hold_time = 0,
             total_hold_time = timedelta_hours 1, average_hold_time = None\<rparr>"
  let ?dm = "[(''2024-01-01'', [(''Store A'', ?g)])]"
  let ?r = "reading_of ''20240101_090000'' ''2024-01-01 08:00:00''"
  have h1: "initial_timestamp ?r = Some ''20240101_090000''" by (simp add: reading_of_def)
  have h2: "strptime_initial ''20240101_090000'' = Some (january 1 9 0)"
    by (rule strptime_initial_examples)
  have h3: "current_timestamp ?r = Some ''2024-01-01 08:00:00''" by (simp add: reading_of_def)
  have h4: "strptime_current ''2024-01-01 08:00:00'' = Some (january 1 8 0)"
    by (rule strptime_current_examples)
  have h5: "datetime_sub (january 1 8 0) (january 1 9 0) < 0"
    by (simp add: datetime_sub_january)
  have grp: "group_of ?dm ''2024-01-01'' ''Store A'' = Some ?g" by (simp add: group_of_def)
  from negative_hold_time_accumulated [OF h1 h2 h3 h4 h5, of 2 "''Store A''" ?dm] grp h5
  show ?thesis
    by (simp add: strftime_day_january datetime_sub_january timedelta_hours_def)
qed

subsection \<open>C10: every group has at least one tray\<close>

lemma trays_positive_empty: "trays_positive []"
  by (simp add: trays_positive_def group_of_def)

lemma aggregate_metrics_positive:
  assumes "aggregate_metrics data dm loc = Inr dm'" and "trays_positive dm"
    and "group_of dm' d l = Some g"
  shows "1 \<le> total_trays g
         \<and> average_hold_time g =
             Some (Avg_timedelta (timedelta_truediv (total_hold_time g) (total_trays g)))"
proof -
  from aggregate_metrics_Inr [OF assms(1)] obtain bs dm1 where
    dm1: "process_batches loc dm bs = Inr dm1"
    and g': "\<And>d l. group_of dm' d l = map_option finalize_metrics (group_of dm1 d l)"
    by blast
  from g' assms(3) obtain g1 where g1: "group_of dm1 d l = Some g1" "g = finalize_metrics g1"
    by auto
  from process_batches_positive [OF dm1 assms(2)] g1(1) have "1 \<le> total_trays g1"
    by (auto simp: trays_positive_def)
  with g1(2) show ?thesis by (simp add: finalize_metrics_def)
qed

lemma aggregate_metrics_Inl:
  assumes "aggregate_metrics data dm loc = Inl e"
  shows "e = TypeError \<or> e = KeyError \<or> e = ValueError"
proof (cases data)
  case None
  with assms show ?thesis by (simp add: aggregate_metrics_def)
next
  case (Some bs)
  with assms have "process_batches loc dm bs = Inl e"
    by (simp add: aggregate_metrics_def split: sum.splits)
  from process_batches_Inl [OF this] show ?thesis by auto
qed

lemma main_loop_Inl:
  "main_loop locations dm = Inl e \<Longrightarrow> e = TypeError \<or> e = KeyError \<or> e = ValueError"
proof (induction locations dm rule: main_loop.induct)
  case (1 dm)
  then show ?case by simp
next
  case (2 q location_name rest dm)
  show ?case
  proof (cases "aggregate_metrics (fetch_sensor_readings q) dm location_name")
    case (Inl e')
    with "2.prems" have "e' = e" by simp
    with aggregate_metrics_Inl [OF Inl] show ?thesis by simp
  next
    case (Inr dm1)
    with "2.prems" have "main_loop rest dm1 = Inl e" by simp
    from "2.IH" [OF Inr this] show ?thesis .
  qed
qed

lemma main_loop_positive:
  assumes "main_loop locations dm = Inr dm'" and "trays_positive dm"
    and "\<forall>d l g. group_of dm d l = Some g \<longrightarrow>
           average_hold_time g =
             Some (Avg_timedelta (timedelta_truediv (total_hold_time g) (total_trays g)))"
    and "group_of dm' d l = Some g"
  shows "1 \<le> total_trays g
         \<and> average_hold_time g =
             Some (Avg_timedelta (timedelta_truediv (total_hold_time g) (total_trays g)))"
  using assms
proof (induction locations dm rule: main_loop.induct)
  case (1 dm)
  then show ?case by (auto simp: trays_positive_def)
next
  case (2 q location_name rest dm)
  from "2.prems"(1) obtain dm1 where
    dm1: "aggregate_metrics (fetch_sensor_readings q) dm location_name = Inr dm1"
    and rest: "main_loop rest dm1 = Inr dm'"
    by (auto split: sum.splits)
  note pos = aggregate_metrics_positive [OF dm1 "2.prems"(2)]
  from pos have "trays_positive dm1" by (auto simp: trays_positive_def)
  moreover from pos have "\<forall>d l g. group_of dm1 d l = Some g \<longrightarrow>
           average_hold_time g =
             Some (Avg_timedelta (timedelta_truediv (total_hold_time g) (total_trays g)))"
    by blast
  ultimately show ?case using "2.IH" [OF dm1 rest] "2.prems"(4) by blast
qed

text \<open>
  Claim C10. Every group of the dictionary has \<^verbatim>\<open>total_trays >= 1\<close>: a group is created
  while a reading of a batch is processed, the tray count of that batch is at least one,
  and \<^verbatim>\<open>total_trays\<close> never decreases. The division of the second loop never divides by
  zero and its branch for \<^verbatim>\<open>total_trays = 0\<close> is never taken.

  The run of \<^verbatim>\<open>main\<close> starts from the empty dictionary. It never ends with
  \<^verbatim>\<open>ZeroDivisionError\<close>, and in the dictionary it returns every group has at least one tray
  and an \<^verbatim>\<open>average_hold_time\<close> that is the quotient, a \<^verbatim>\<open>timedelta\<close>.
\<close>

theorem groups_have_trays:
  "main_loop locations [] \<noteq> Inl ZeroDivisionError
   \<and> (main_loop locations [] = Inr dm \<and> group_of dm d l = Some g
       \<longrightarrow> 1 \<le> total_trays g
           \<and> average_hold_time g =
               Some (Avg_timedelta (timedelta_truediv (total_hold_time g) (total_trays g))))"
proof -
  have "main_loop locations [] \<noteq> Inl ZeroDivisionError"
    using main_loop_Inl [of locations "[]" ZeroDivisionError] by auto
  moreover have "\<forall>d l g. group_of [] d l = Some g \<longrightarrow>
           average_hold_time g =
             Some (Avg_timedelta (timedelta_truediv (total_hold_time g) (total_trays g)))"
    by (simp add: group_of_def)
  then have "main_loop locations [] = Inr dm \<and> group_of dm d l = Some g
       \<longrightarrow> 1 \<le> total_trays g
           \<and> average_hold_time g =
               Some (Avg_timedelta (timedelta_truediv (total_hold_time g) (total_trays g)))"
    using main_loop_positive [of locations "[]" dm d l g] trays_positive_empty by blast
  ultimately show ?thesis by blast
qed

text \<open>A run over two locations: Store B, whose fetch raises, and Store A with one batch of
  two readings.\<close>

theorem groups_have_trays_witness:
  "main_loop
     [(Query_raised, ''Store B''),
      (Query_response
         [Some [reading_of ''20240101_080000'' ''2024-01-01 10:00:00'',
                reading_of ''20240101_080000'' ''2024-01-01 14:00:00'']], ''Store A'')] []
   = Inr [(''2024-01-01'', [(''Store A'',
       \<lparr>first_tray_time = january 1 8 0, last_tray_count = 2, last_tray_time = january 1 8 0,
        percentage_trays_over_hold = 50, total_trays = 2, trays_exceeding_hold_time = 1,
        total_hold_time = timedelta_hours 8,
        average_hold_time = Some (Avg_timedelta (timedelta_hours 4))\<rparr>)])]
   \<and> group_of [(''2024-01-01'', [(''Store A'',
       \<lparr>first_tray_time = january 1 8 0, last_tray_count = 2, last_tray_time = january 1 8 0,
        percentage_trays_over_hold = 50, total_trays = 2, trays_exceeding_hold_time = 1,
        total_hold_time = timedelta_hours 8,
        average_hold_time = Some (Avg_timedelta (timedelta_hours 4))\<rparr>)])]
       ''2024-01-01'' ''Store A''
     = Some \<lparr>first_tray_time = january 1 8 0, last_tray_count = 2,
         last_tray_time = january 1 8 0,
         percentage_trays_over_hold = 50, total_trays = 2, trays_exceeding_hold_time = 1,
         total_hold_time = timedelta_hours 8,
         average_hold_time = Some (Avg_timedelta (timedelta_hours 4))\<rparr>
   \<and> (1::nat) \<le> 2
   \<and> timedelta_truediv (timedelta_hours 8) 2 = timedelta_hours 4"
proof -
  let ?g = "\<lparr>first_tray_time = january 1 8 0, last_tray_count = 2, last_tray_time = january 1 8 0,
        percentage_trays_over_hold = 50, total_trays = 2, trays_exceeding_hold_time = 1,
        total_hold_time = timedelta_hours 8,
        average_hold_time = Some (Avg_timedelta (timedelta_hours 4))\<rparr>"
  let ?locs = "[(Query_raised, ''Store B''),
      (Query_response
         [Some [reading_of ''20240101_080000'' ''2024-01-01 10:00:00'',
                reading_of ''20240101_080000'' ''2024-01-01 14:00:00'']], ''Store A'')]"
  have run: "main_loop ?locs [] = Inr [(''2024-01-01'', [(''Store A'', ?g)])]"
    by (simp add: fetch_sensor_readings_def example_simps finalize_simps)
  have grp: "group_of [(''2024-01-01'', [(''Store A'', ?g)])] ''2024-01-01'' ''Store A'' = Some ?g"
    by (simp add: group_of_def)
  from groups_have_trays [of ?locs "[(''2024-01-01'', [(''Store A'', ?g)])]"
      "''2024-01-01''" "''Store A''" ?g] run grp
  show ?thesis by simp
qed

end
